theory Spec2Isabelle
  imports Main
begin

section \<open>JavaScript values\<close>

text \<open>
  The data-access layer of BizTime (src/dbFunctions.js) and its route handlers
  (src/routes/invoices.js) are untyped JavaScript: every argument, row and result is a
  dynamic value. The values that reach this code are the JSON-like ones (a request body,
  a row of the store, an object literal of the code) and instances of Error, so these are
  the values of the model. A number is an integer here, printed in decimal: the only
  sum the code computes is a length plus one, and nothing below depends on a fraction.
  An object is the list of its own properties in insertion order. An instance of Error
  is its name, its message and its further own properties (a route adds \<open>status\<close>).
\<close>

datatype jsval =
    JUndefined
  | JNull
  | JBool bool
  | JNum int
  | JStr string
  | JArr "jsval list"
  | JObj "(string \<times> jsval) list"
  | JErr string string "(string \<times> jsval) list"

text \<open>Decimal digits of a natural number, as Number.prototype.toString prints them.\<close>

fun digits :: "nat \<Rightarrow> string" where
  "digits n =
     (if n < 10 then [''0123456789'' ! n]
      else digits (n div 10) @ [''0123456789'' ! (n mod 10)])"

declare digits.simps [simp del]

text \<open>Array.prototype.join with a separator, on strings already converted.\<close>

fun join :: "string \<Rightarrow> string list \<Rightarrow> string" where
  "join sep [] = []"
| "join sep [x] = x"
| "join sep (x # y # ys) = x @ sep @ join sep (y # ys)"

text \<open>
  ToString, the conversion a template literal applies to each \<open>${...}\<close>. An array
  prints its elements joined by commas, \<open>null\<close> and \<open>undefined\<close> elements as the
  empty string; a plain object prints as \<open>[object Object]\<close>; an Error prints as
  Error.prototype.toString does. Two kinds of value are outside what this function
  covers. An object that has an own property \<open>toString\<close> or \<open>valueOf\<close> is not printed
  by JavaScript at all: none of the values here is callable, so the conversion throws a
  TypeError, where \<open>tostr\<close> prints. And an integer from \<open>10^21\<close> on is printed by
  JavaScript in exponent form, where \<open>tostr\<close> prints all its digits. The statements
  below are about names, placeholders and lengths, which are of neither kind.
\<close>

fun tostr :: "jsval \<Rightarrow> string" where
  "tostr JUndefined = ''undefined''"
| "tostr JNull = ''null''"
| "tostr (JBool b) = (if b then ''true'' else ''false'')"
| "tostr (JNum i) = (if i < 0 then ''-'' @ digits (nat (- i)) else digits (nat i))"
| "tostr (JStr s) = s"
| "tostr (JArr xs) =
     join '','' (map (\<lambda>x. if x = JUndefined then [] else if x = JNull then [] else tostr x) xs)"
| "tostr (JObj kvs) = ''[object Object]''"
| "tostr (JErr n m ps) = (if n = [] then m else if m = [] then n else n @ '': '' @ m)"

text \<open>
  The errors the engine itself throws. The message is a label of the model: the engine's
  own wording differs, and nothing below depends on it.
\<close>

definition TypeError :: "string \<Rightarrow> jsval" where
  "TypeError m = JErr ''TypeError'' m []"

definition ReferenceError :: "string \<Rightarrow> jsval" where
  "ReferenceError m = JErr ''ReferenceError'' m []"

text \<open>
  A thrown value is the left injection of a sum, a normal completion the right one;
  \<open>bindE\<close> sequences two steps and stops at the first throw.
\<close>

definition bindE :: "jsval + 'a \<Rightarrow> ('a \<Rightarrow> jsval + 'b) \<Rightarrow> jsval + 'b" where
  "bindE m f = (case m of Inl e \<Rightarrow> Inl e | Inr x \<Rightarrow> f x)"

text \<open>
  \<open>getp v k\<close> is the property read \<open>v.k\<close> for the fixed names the code reads. Reading a
  property of \<open>undefined\<close> or \<open>null\<close> throws a TypeError; a missing property is
  \<open>undefined\<close>; arrays and strings have their \<open>length\<close>.
\<close>

fun getp :: "jsval \<Rightarrow> string \<Rightarrow> jsval + jsval" where
  "getp JUndefined k = Inl (TypeError (''cannot read property '' @ k @ '' of undefined''))"
| "getp JNull k = Inl (TypeError (''cannot read property '' @ k @ '' of null''))"
| "getp (JBool b) k = Inr JUndefined"
| "getp (JNum i) k = Inr JUndefined"
| "getp (JStr s) k = Inr (if k = ''length'' then JNum (int (length s)) else JUndefined)"
| "getp (JArr xs) k = Inr (if k = ''length'' then JNum (int (length xs)) else JUndefined)"
| "getp (JObj kvs) k = Inr (case map_of kvs k of None \<Rightarrow> JUndefined | Some v \<Rightarrow> v)"
| "getp (JErr n m ps) k =
     Inr (if k = ''name'' then JStr n else if k = ''message'' then JStr m
          else (case map_of ps k of None \<Rightarrow> JUndefined | Some v \<Rightarrow> v))"

text \<open>\<open>geti v i\<close> is the indexed read \<open>v[i]\<close> for a counter \<open>i\<close>.\<close>

fun geti :: "jsval \<Rightarrow> nat \<Rightarrow> jsval + jsval" where
  "geti JUndefined i = Inl (TypeError (''cannot read property '' @ digits i @ '' of undefined''))"
| "geti JNull i = Inl (TypeError (''cannot read property '' @ digits i @ '' of null''))"
| "geti (JBool b) i = Inr JUndefined"
| "geti (JNum n) i = Inr JUndefined"
| "geti (JStr s) i = Inr (if i < length s then JStr [s ! i] else JUndefined)"
| "geti (JArr xs) i = Inr (if i < length xs then xs ! i else JUndefined)"
| "geti (JObj kvs) i = Inr (case map_of kvs (digits i) of None \<Rightarrow> JUndefined | Some v \<Rightarrow> v)"
| "geti (JErr n m ps) i = Inr (case map_of ps (digits i) of None \<Rightarrow> JUndefined | Some v \<Rightarrow> v)"

text \<open>
  The values a \<open>for ... of\<close> loop runs over: the elements of an array, the characters of
  a string; anything else is not iterable and throws.
\<close>

fun iterate :: "jsval \<Rightarrow> jsval + jsval list" where
  "iterate (JArr xs) = Inr xs"
| "iterate (JStr s) = Inr (map (\<lambda>c. JStr [c]) s)"
| "iterate v = Inl (TypeError ''value is not iterable'')"

text \<open>
  The text of \<open>${x + 1}\<close>: a number is incremented, \<open>null\<close> and booleans count as
  numbers, \<open>undefined\<close> gives NaN, and a string, array or object is concatenated with
  \<open>1\<close>.
\<close>

fun plus_one_text :: "jsval \<Rightarrow> string" where
  "plus_one_text (JNum i) = tostr (JNum (i + 1))"
| "plus_one_text JUndefined = ''NaN''"
| "plus_one_text JNull = ''1''"
| "plus_one_text (JBool b) = (if b then ''2'' else ''1'')"
| "plus_one_text v = tostr v @ ''1''"

text \<open>
  \<open>push v x\<close> is the call \<open>v.push(x)\<close>: only an array has the method.
\<close>

fun push :: "jsval \<Rightarrow> jsval \<Rightarrow> jsval + jsval" where
  "push (JArr xs) x = Inr (JArr (xs @ [x]))"
| "push JUndefined x = Inl (TypeError ''cannot read property push of undefined'')"
| "push JNull x = Inl (TypeError ''cannot read property push of null'')"
| "push v x = Inl (TypeError ''push is not a function'')"

text \<open>Writing an association list as an object does: in place, or appended.\<close>

fun put :: "string \<Rightarrow> jsval \<Rightarrow> (string \<times> jsval) list \<Rightarrow> (string \<times> jsval) list" where
  "put k v [] = [(k, v)]"
| "put k v ((k', v') # kvs) = (if k' = k then (k, v) # kvs else (k', v') # put k v kvs)"

text \<open>
  \<open>setp v k x\<close> is the assignment \<open>v.k = x\<close> and \<open>delp v k\<close> the statement
  \<open>delete v.k\<close>, each returning the receiver as it is afterwards. On a primitive both
  do nothing (the files are not in strict mode); a named property put on an array is not
  part of what \<open>res.json\<close> sends, so the array is returned as it was. The code assigns
  neither the name nor the message of an error; the model shows such an assignment with
  the assigned value converted to text.
\<close>

fun setp :: "jsval \<Rightarrow> string \<Rightarrow> jsval \<Rightarrow> jsval + jsval" where
  "setp JUndefined k x = Inl (TypeError (''cannot set property '' @ k @ '' of undefined''))"
| "setp JNull k x = Inl (TypeError (''cannot set property '' @ k @ '' of null''))"
| "setp (JObj kvs) k x = Inr (JObj (put k x kvs))"
| "setp (JErr n m ps) k x =
     Inr (if k = ''name'' then JErr (tostr x) m ps else if k = ''message'' then JErr n (tostr x) ps
          else JErr n m (put k x ps))"
| "setp v k x = Inr v"

fun delp :: "jsval \<Rightarrow> string \<Rightarrow> jsval + jsval" where
  "delp JUndefined k = Inl (TypeError (''cannot convert undefined to object''))"
| "delp JNull k = Inl (TypeError (''cannot convert null to object''))"
| "delp (JObj kvs) k = Inr (JObj (filter (\<lambda>kv. fst kv \<noteq> k) kvs))"
| "delp (JErr n m ps) k = Inr (JErr n m (filter (\<lambda>kv. fst kv \<noteq> k) ps))"
| "delp v k = Inr v"

text \<open>Truthiness, as an \<open>if\<close> tests it.\<close>

fun truthy :: "jsval \<Rightarrow> bool" where
  "truthy JUndefined = False"
| "truthy JNull = False"
| "truthy (JBool b) = b"
| "truthy (JNum i) = (i \<noteq> 0)"
| "truthy (JStr s) = (s \<noteq> [])"
| "truthy v = True"

section \<open>The store\<close>

text \<open>
  src/db.js exports one connected client of the pg driver. \<open>db.query(text, values)\<close>
  either rejects with an error or resolves to a result whose \<open>rows\<close> is an array; the
  call may change the database. The store is therefore a parameter of every operation:
  a function from the statement text, the bound values and the database before to the
  response and the database after. \<open>values\<close> is \<open>undefined\<close> when the call passes
  none. A statement the store never answers is outside the model: the code sets no
  timeout, and the operation then never returns.
\<close>

datatype response = Rejected jsval | Result "jsval list"

type_synonym 'db store = "string \<Rightarrow> jsval \<Rightarrow> 'db \<Rightarrow> response \<times> 'db"

section \<open>The data-access operations (src/dbFunctions.js)\<close>

text \<open>
  Each operation is an async function that returns a promise; awaiting it either yields
  the resolved envelope (\<open>Inr\<close>) or throws (\<open>Inl\<close>). The statement text is the
  template literal of the source, line breaks and indentation included.
\<close>

subsection \<open>dbSelectAll\<close>

definition dbSelectAll_sql :: "jsval \<Rightarrow> jsval \<Rightarrow> string" where
  "dbSelectAll_sql selectFields table =
     ''\<newline>                SELECT '' @ tostr selectFields @ '' \<newline>                FROM ''
       @ tostr table @ ''  \<newline>            ''"

definition dbSelectAll :: "'db store \<Rightarrow> jsval \<Rightarrow> jsval \<Rightarrow> 'db \<Rightarrow> (jsval + jsval) \<times> 'db" where
  "dbSelectAll query selectFields table db =
     (case query (dbSelectAll_sql selectFields table) JUndefined db of
        (Result rows, db') \<Rightarrow>
          (Inr (JObj [(''success'', JBool True), (''sqlReturn'', JArr rows),
                      (''error'', JObj [(''message'', JStr [])])]), db')
      | (Rejected err, db') \<Rightarrow>
          (Inr (JObj [(''success'', JBool False), (''sqlReturn'', JStr []),
                      (''error'', JObj [(''message'', err)])]), db'))"

subsection \<open>dbSelect\<close>

text \<open>
  The arguments of \<open>db.query\<close> at lines 99-103, evaluated left to right inside the
  \<open>try\<close>: the three property reads throw when \<open>selectData\<close> is \<open>undefined\<close> or
  \<open>null\<close>.
\<close>

definition dbSelect_call :: "jsval \<Rightarrow> jsval \<Rightarrow> jsval + (string \<times> jsval)" where
  "dbSelect_call selectData table =
     bindE (getp selectData ''selectFields'') (\<lambda>selectFields.
     bindE (getp selectData ''criteria'') (\<lambda>criteria.
     bindE (getp selectData ''criteriaValues'') (\<lambda>criteriaValues.
       Inr (''\<newline>                SELECT '' @ tostr selectFields @ '' \<newline>                FROM ''
              @ tostr table @ '' \<newline>                WHERE '' @ tostr criteria
              @ '' \<newline>            '',
            criteriaValues))))"

definition dbSelect :: "'db store \<Rightarrow> jsval \<Rightarrow> jsval \<Rightarrow> 'db \<Rightarrow> (jsval + jsval) \<times> 'db" where
  "dbSelect query selectData table db =
     (case dbSelect_call selectData table of
        Inl err \<Rightarrow>
          (Inr (JObj [(''success'', JBool False), (''sqlReturn'', JStr []),
                      (''error'', JObj [(''message'', err)])]), db)
      | Inr (sql, criteriaValues) \<Rightarrow>
          (case query sql criteriaValues db of
             (Result rows, db') \<Rightarrow>
               (if length rows > 0 then
                  (if length rows = 1 then
                     (Inr (JObj [(''success'', JBool True), (''sqlReturn'', rows ! 0),
                                 (''error'', JObj [(''message'', JStr [])])]), db')
                   else
                     (Inr (JObj [(''success'', JBool True), (''sqlReturn'', JArr rows),
                                 (''error'', JObj [(''message'', JStr [])])]), db'))
                else
                  (Inr (JObj [(''success'', JBool False), (''sqlReturn'', JStr []),
                              (''error'', JObj [(''message'', JStr ''not found'')])]), db'))
           | (Rejected err, db') \<Rightarrow>
               (Inr (JObj [(''success'', JBool False), (''sqlReturn'', JStr []),
                           (''error'', JObj [(''message'', err)])]), db')))"

subsection \<open>dbInsert\<close>

text \<open>
  \<open>returnFields\<close> defaults to \<open>*\<close> when the caller passes nothing. The inserted row is
  \<open>result.rows[0]\<close>, which is \<open>undefined\<close> when the store returns no row. The failure
  envelope names its empty payload \<open>insertReturn\<close>, as the source does.
\<close>

definition dbInsert_call :: "jsval \<Rightarrow> jsval \<Rightarrow> jsval \<Rightarrow> jsval + (string \<times> jsval)" where
  "dbInsert_call insertData table returnFields =
     bindE (getp insertData ''argumentsName'') (\<lambda>argumentsName.
     bindE (getp insertData ''argumentsNbr'') (\<lambda>argumentsNbr.
     bindE (getp insertData ''argumentsValues'') (\<lambda>argumentsValues.
       Inr (''\<newline>                INSERT INTO '' @ tostr table @ '' ('' @ tostr argumentsName
              @ '')  \<newline>                VALUES ('' @ tostr argumentsNbr
              @ '') \<newline>                RETURNING ''
              @ tostr (if returnFields = JUndefined then JStr ''*'' else returnFields)
              @ '' \<newline>            '',
            argumentsValues))))"

definition dbInsert :: "'db store \<Rightarrow> jsval \<Rightarrow> jsval \<Rightarrow> jsval \<Rightarrow> 'db \<Rightarrow> (jsval + jsval) \<times> 'db" where
  "dbInsert query insertData table returnFields db =
     (case dbInsert_call insertData table returnFields of
        Inl err \<Rightarrow>
          (Inr (JObj [(''success'', JBool False), (''insertReturn'', JStr []),
                      (''error'', JObj [(''message'', err)])]), db)
      | Inr (sql, argumentsValues) \<Rightarrow>
          (case query sql argumentsValues db of
             (Result rows, db') \<Rightarrow>
               (Inr (JObj [(''success'', JBool True),
                           (''sqlReturn'', (if 0 < length rows then rows ! 0 else JUndefined)),
                           (''error'', JObj [(''message'', JStr [])])]), db')
           | (Rejected err, db') \<Rightarrow>
               (Inr (JObj [(''success'', JBool False), (''insertReturn'', JStr []),
                           (''error'', JObj [(''message'', err)])]), db')))"

subsection \<open>dbUpdate\<close>

text \<open>
  The loop of lines 262-267 over the fields of \<open>updateData.argumentsName\<close>; its state
  is \<open>(setClause, returningClause, delim, idx)\<close>. Each round reads
  \<open>updateData.argumentsNbr[idx]\<close>. (The loop variable \<open>field\<close> is undeclared, which
  outside strict mode makes it a global and does not throw.)
\<close>

fun dbUpdate_loop ::
  "jsval \<Rightarrow> jsval list \<Rightarrow> string \<times> string \<times> string \<times> nat
     \<Rightarrow> jsval + (string \<times> string \<times> string \<times> nat)" where
  "dbUpdate_loop updateData [] st = Inr st"
| "dbUpdate_loop updateData (field # fields) (setClause, returningClause, delim, idx) =
     bindE (getp updateData ''argumentsNbr'') (\<lambda>argumentsNbr.
     bindE (geti argumentsNbr idx) (\<lambda>nbr.
       dbUpdate_loop updateData fields
         (setClause @ delim @ tostr field @ '' = '' @ tostr nbr,
          returningClause @ delim @ tostr field,
          '', '',
          idx + 1)))"

text \<open>
  Lines 258-273, which run before the promise and outside any \<open>try\<close>: the three
  clauses, and the push of the primary-key value onto the caller's
  \<open>updateData.argumentsValues\<close>. The result is
  \<open>(setClause, whereClause, returningClause, updateData)\<close> with \<open>updateData\<close> as the
  push leaves it: the array is changed in place, so the caller sees it through its own
  reference. \<open>whereCriteria.value\<close> is read after \<open>whereCriteria.pk\<close> was, so it cannot
  throw, and its place before the call of \<open>push\<close> changes nothing. The caller's two
  arguments are taken to be distinct objects. Every throw of these lines leaves
  \<open>dbUpdate\<close> as a rejected promise: a missing \<open>whereCriteria\<close> or \<open>updateData\<close>, an
  \<open>argumentsName\<close> that is not iterable, an \<open>argumentsValues\<close> that is no array.
\<close>

definition dbUpdate_clauses ::
  "jsval \<Rightarrow> jsval \<Rightarrow> jsval + (string \<times> string \<times> string \<times> jsval)" where
  "dbUpdate_clauses whereCriteria updateData =
     bindE (getp whereCriteria ''pk'') (\<lambda>pk.
     bindE (getp updateData ''argumentsName'') (\<lambda>argumentsName.
     bindE (iterate argumentsName) (\<lambda>fields.
     bindE (dbUpdate_loop updateData fields ([], tostr pk @ '', '', [], 0))
       (\<lambda>(setClause, returningClause, delim, idx).
     bindE (getp updateData ''argumentsNbr'') (\<lambda>argumentsNbr.
     bindE (getp argumentsNbr ''length'') (\<lambda>len.
     bindE (getp updateData ''argumentsValues'') (\<lambda>argumentsValues.
     bindE (getp whereCriteria ''value'') (\<lambda>v.
     bindE (push argumentsValues v) (\<lambda>pushed.
     bindE (setp updateData ''argumentsValues'' pushed) (\<lambda>updateData'.
       Inr (setClause, tostr pk @ '' = $'' @ plus_one_text len, returningClause,
            updateData')))))))))))"

text \<open>
  The arguments of \<open>db.query\<close> at lines 281-286, evaluated inside the \<open>try\<close>: the
  statement text around the three clauses, and \<open>updateData.argumentsValues\<close> as the
  push left it.
\<close>

definition dbUpdate_call ::
  "jsval \<Rightarrow> string \<Rightarrow> string \<Rightarrow> string \<Rightarrow> jsval \<Rightarrow> jsval + (string \<times> jsval)" where
  "dbUpdate_call table setClause whereClause returningClause updateData =
     bindE (getp updateData ''argumentsValues'') (\<lambda>argumentsValues.
       Inr (''\<newline>                UPDATE '' @ tostr table @ '' \<newline>                SET ''
              @ setClause @ '' \<newline>                WHERE '' @ whereClause
              @ ''\<newline>                RETURNING '' @ returningClause
              @ '' \<newline>            '',
            argumentsValues))"

text \<open>
  The operation returns what awaiting it gives, \<open>updateData\<close> as the call leaves it, and
  the database. A throw of lines 258-273 leaves the function; one inside the \<open>try\<close> is
  caught and resolved as a failure envelope.
\<close>

definition dbUpdate ::
  "'db store \<Rightarrow> jsval \<Rightarrow> jsval \<Rightarrow> jsval \<Rightarrow> 'db \<Rightarrow> (jsval + jsval) \<times> jsval \<times> 'db" where
  "dbUpdate query whereCriteria updateData table db =
     (case dbUpdate_clauses whereCriteria updateData of
        Inl err \<Rightarrow> (Inl err, updateData, db)
      | Inr (setClause, whereClause, returningClause, updateData') \<Rightarrow>
          (case dbUpdate_call table setClause whereClause returningClause updateData' of
             Inl err \<Rightarrow>
               (Inr (JObj [(''success'', JBool False), (''sqlReturn'', JStr []),
                           (''error'', JObj [(''message'', err)])]), updateData', db)
           | Inr (sql, argumentsValues) \<Rightarrow>
               (case query sql argumentsValues db of
                  (Result rows, db') \<Rightarrow>
                    (if length rows > 0 then
                       (Inr (JObj [(''success'', JBool True), (''sqlReturn'', rows ! 0),
                                   (''error'', JObj [(''message'', JStr [])])]),
                        updateData', db')
                     else
                       (Inr (JObj [(''success'', JBool False), (''sqlReturn'', JObj []),
                                   (''error'', JObj [(''message'', JStr ''not found'')])]),
                        updateData', db'))
                | (Rejected err, db') \<Rightarrow>
                    (Inr (JObj [(''success'', JBool False), (''sqlReturn'', JStr []),
                                (''error'', JObj [(''message'', err)])]),
                     updateData', db'))))"

subsection \<open>dbDelete\<close>

definition dbDelete_call :: "jsval \<Rightarrow> jsval \<Rightarrow> jsval + (string \<times> jsval)" where
  "dbDelete_call deleteData table =
     bindE (getp deleteData ''criteria'') (\<lambda>criteria.
     bindE (getp deleteData ''argumentsName'') (\<lambda>argumentsName.
     bindE (getp deleteData ''criteriaValues'') (\<lambda>criteriaValues.
       Inr (''\<newline>                DELETE FROM '' @ tostr table @ ''  \<newline>                WHERE ''
              @ tostr criteria @ '' \<newline>                RETURNING '' @ tostr argumentsName
              @ ''\<newline>            '',
            criteriaValues))))"

definition dbDelete :: "'db store \<Rightarrow> jsval \<Rightarrow> jsval \<Rightarrow> 'db \<Rightarrow> (jsval + jsval) \<times> 'db" where
  "dbDelete query deleteData table db =
     (case dbDelete_call deleteData table of
        Inl err \<Rightarrow>
          (Inr (JObj [(''success'', JBool False), (''message'', JObj []),
                      (''error'', JObj [(''message'', err)])]), db)
      | Inr (sql, criteriaValues) \<Rightarrow>
          (case query sql criteriaValues db of
             (Result rows, db') \<Rightarrow>
               (if length rows > 0 then
                  (Inr (JObj [(''success'', JBool True),
                              (''message'', JObj [(''status'', JStr ''deleted'')]),
                              (''deleted'', JArr rows),
                              (''error'', JObj [(''message'', JStr [])])]), db')
                else
                  (Inr (JObj [(''success'', JBool False), (''message'', JObj []),
                              (''error'', JObj [(''message'', JStr ''not found'')])]), db'))
           | (Rejected err, db') \<Rightarrow>
               (Inr (JObj [(''success'', JBool False), (''message'', JObj []),
                           (''error'', JObj [(''message'', err)])]), db')))"

section \<open>Two route handlers (src/routes/invoices.js)\<close>

text \<open>
  A request as Express hands it to a handler of the path \<open>/:id\<close>: the path parameter,
  always a string, and the parsed body. A handler either answers with \<open>res.json(x)\<close>
  (the status stays 200) or passes an error on with \<open>next(err)\<close>; it is an async
  function, so it can also throw (\<open>Inl\<close>), and then neither happens.
\<close>

record request =
  params_id :: string
  body :: jsval

datatype reply = Json jsval | Next jsval

text \<open>
  \<open>const e = new Error(x); e.status = st\<close>: the message is \<open>ToString(x)\<close>, or empty
  when \<open>x\<close> is \<open>undefined\<close>.
\<close>

definition status_error :: "jsval \<Rightarrow> int \<Rightarrow> jsval" where
  "status_error x st =
     JErr ''Error'' (if x = JUndefined then [] else tostr x) [(''status'', JNum st)]"

text \<open>
  \<open>checkNumbers\<close> and \<open>prepareUpdateData\<close> come from helperFx.js, which is not among the
  sources: both are parameters of the handlers.
\<close>

subsection \<open>GET /invoices/:id\<close>

text \<open>Lines 62-76: the invoice was found, the company is looked up.\<close>

definition get_invoice_found ::
  "'db store \<Rightarrow> jsval \<Rightarrow> jsval \<Rightarrow> 'db \<Rightarrow> (jsval + reply) \<times> 'db" where
  "get_invoice_found query selectData resultsInvoice db =
     (case
        bindE (setp selectData ''criteria'' (JStr ''code = $1'')) (\<lambda>selectData1.
        bindE (getp resultsInvoice ''sqlReturn'') (\<lambda>sqlReturn.
        bindE (getp sqlReturn ''comp_code'') (\<lambda>comp_code.
        bindE (setp selectData1 ''criteriaValues'' (JArr [comp_code])) (\<lambda>selectData2.
        bindE (setp selectData2 ''selectFields'' (JStr ''code, name, description''))
          (\<lambda>selectData3. Inr (sqlReturn, selectData3))))))
      of
        Inl err \<Rightarrow> (Inl err, db)
      | Inr (sqlReturn, selectData') \<Rightarrow>
          (case dbSelect query selectData' (JStr ''companies'') db of
             (Inl err, db') \<Rightarrow> (Inl err, db')
           | (Inr resultsCompany, db') \<Rightarrow>
               (case
                  bindE (getp resultsCompany ''success'') (\<lambda>success.
                    if truthy success then
                      bindE (delp sqlReturn ''comp_code'') (\<lambda>sqlReturn1.
                      bindE (getp resultsCompany ''sqlReturn'') (\<lambda>company.
                        setp sqlReturn1 ''company'' company))
                    else Inr sqlReturn)
                of
                  Inl err \<Rightarrow> (Inl err, db')
                | Inr invoice \<Rightarrow> (Inr (Json (JObj [(''invoice'', invoice)])), db'))))"

text \<open>Lines 78-89: the lookup of the invoice failed.\<close>

definition get_invoice_failed :: "request \<Rightarrow> jsval \<Rightarrow> jsval + reply" where
  "get_invoice_failed req resultsInvoice =
     bindE (getp resultsInvoice ''error'') (\<lambda>error.
     bindE (getp error ''message'') (\<lambda>message.
       if message = JStr ''not found'' then
         Inr (Next (status_error
                (JStr (''Invoice '' @ [CHR 0x27] @ params_id req @ [CHR 0x27] @ '' was not found.''))
                404))
       else Inr (Next (status_error message 400))))"

definition get_invoice ::
  "(jsval \<Rightarrow> jsval) \<Rightarrow> 'db store \<Rightarrow> request \<Rightarrow> 'db \<Rightarrow> (jsval + reply) \<times> 'db" where
  "get_invoice checkNumbers query req db =
     (let nbrTest = checkNumbers (JStr (params_id req)) in
      case getp nbrTest ''numberIsValid'' of
        Inl err \<Rightarrow> (Inl err, db)
      | Inr numberIsValid \<Rightarrow>
          if truthy numberIsValid then
            (case getp nbrTest ''validatedNumber'' of
               Inl err \<Rightarrow> (Inl err, db)
             | Inr idIn \<Rightarrow>
                 (let selectData =
                        JObj [(''criteria'', JStr ''id = $1''),
                              (''criteriaValues'', JArr [idIn]),
                              (''selectFields'',
                                 JStr ''id, amt, paid, add_date, paid_date, comp_code'')]
                  in case dbSelect query selectData (JStr ''invoices'') db of
                       (Inl err, db') \<Rightarrow> (Inl err, db')
                     | (Inr resultsInvoice, db') \<Rightarrow>
                         (case getp resultsInvoice ''success'' of
                            Inl err \<Rightarrow> (Inl err, db')
                          | Inr success \<Rightarrow>
                              if truthy success
                              then get_invoice_found query selectData resultsInvoice db'
                              else (get_invoice_failed req resultsInvoice, db'))))
          else
            (case getp nbrTest ''message'' of
               Inl err \<Rightarrow> (Inl err, db)
             | Inr message \<Rightarrow>
                 (Inr (Next (status_error (JStr (''Invoice id '' @ tostr message)) 400)), db)))"

subsection \<open>PUT /invoices/:id\<close>

text \<open>
  Lines 163-175, the answer to the envelope of \<open>dbUpdate\<close>. In the branch of
  \<open>not found\<close> the handler declares \<open>errorUpdate\<close> and then assigns to
  \<open>errorSelect.status\<close>; \<open>errorSelect\<close> is declared only inside the other branch's
  block, so the name resolves to nothing (no global of that name is created anywhere in
  the sources) and the statement throws a ReferenceError.
\<close>

definition put_invoice_answer :: "request \<Rightarrow> jsval \<Rightarrow> jsval + reply" where
  "put_invoice_answer req resultsUpdate =
     bindE (getp resultsUpdate ''success'') (\<lambda>success.
       if truthy success then
         bindE (getp resultsUpdate ''sqlReturn'') (\<lambda>sqlReturn.
           Inr (Json (JObj [(''invoice'', sqlReturn)])))
       else
         bindE (getp resultsUpdate ''error'') (\<lambda>error.
         bindE (getp error ''message'') (\<lambda>message.
           if message = JStr ''not found''
           then Inl (ReferenceError ''errorSelect is not defined'')
           else Inr (Next (status_error message 400)))))"

definition put_invoice ::
  "(jsval \<Rightarrow> jsval) \<Rightarrow> (jsval \<Rightarrow> jsval \<Rightarrow> jsval) \<Rightarrow> 'db store \<Rightarrow> request \<Rightarrow> 'db
     \<Rightarrow> (jsval + reply) \<times> 'db" where
  "put_invoice checkNumbers prepareUpdateData query req db =
     (let verifyNumber = checkNumbers (JStr (params_id req)) in
      case getp verifyNumber ''numberIsValid'' of
        Inl err \<Rightarrow> (Inl err, db)
      | Inr numberIsValid \<Rightarrow>
          if numberIsValid = JBool False then
            (case getp verifyNumber ''message'' of
               Inl err \<Rightarrow> (Inl err, db)
             | Inr message \<Rightarrow>
                 (Inr (Next (status_error (JStr (''Invoice id '' @ tostr message)) 400)), db))
          else
            (let resultsPreparation =
                   prepareUpdateData
                     (JArr [JStr ''comp_code'', JStr ''amt'', JStr ''paid'', JStr ''paid_date''])
                     (body req)
             in case getp resultsPreparation ''success'' of
                  Inl err \<Rightarrow> (Inl err, db)
                | Inr success \<Rightarrow>
                    if success = JBool False then
                      (case getp resultsPreparation ''error'' of
                         Inl err \<Rightarrow> (Inl err, db)
                       | Inr error \<Rightarrow> (Inr (Next (status_error error 404)), db))
                    else
                      (case
                         bindE (getp verifyNumber ''validatedNumber'') (\<lambda>validatedNumber.
                         bindE (getp resultsPreparation ''updateData'') (\<lambda>updateData.
                           Inr (JObj [(''pk'', JStr ''id''), (''value'', validatedNumber)],
                                updateData)))
                       of
                         Inl err \<Rightarrow> (Inl err, db)
                       | Inr (criteria, updateData) \<Rightarrow>
                           (case dbUpdate query criteria updateData (JStr ''invoices'') db of
                              (Inl err, updateData', db') \<Rightarrow> (Inl err, db')
                            | (Inr resultsUpdate, updateData', db') \<Rightarrow>
                                (put_invoice_answer req resultsUpdate, db')))))"

section \<open>A scripted store\<close>

text \<open>
  A store for concrete runs: its state is the list of responses still to give, one per
  statement; with none left the connection is lost.
\<close>

definition scripted :: "response list store" where
  "scripted sql vals db =
     (case db of
        [] \<Rightarrow> (Rejected (JErr ''Error'' ''Connection terminated'' []), [])
      | r # rs \<Rightarrow> (r, rs))"

section \<open>Properties\<close>

subsection \<open>Auxiliary facts\<close>

lemma digits_one_digit: "n < 10 \<Longrightarrow> digits n = [''0123456789'' ! n]"
  by (simp add: digits.simps)

lemma jsval_not_own_singleton: "r \<noteq> JArr [r]"
proof
  assume "r = JArr [r]"
  then have "size r = size (JArr [r])" by simp
  then show False by simp
qed

lemma map_of_put: "map_of (put k v kvs) = (map_of kvs)(k \<mapsto> v)"
  by (induction kvs) (auto simp add: fun_eq_iff)

lemma join_Cons_nonempty: "xs \<noteq> [] \<Longrightarrow> join sep (x # xs) = x @ sep @ join sep xs"
  by (cases xs) simp_all

text \<open>One round of the loop of \<open>dbUpdate\<close>, when \<open>argumentsNbr\<close> is an array.\<close>

lemma dbUpdate_loop_step:
  assumes "getp updateData ''argumentsNbr'' = Inr (JArr nbrs)" and "idx < length nbrs"
  shows "dbUpdate_loop updateData (f # fs) (setClause, returningClause, delim, idx) =
         dbUpdate_loop updateData fs
           (setClause @ delim @ tostr f @ '' = '' @ tostr (nbrs ! idx),
            returningClause @ delim @ tostr f, '', '', Suc idx)"
  using assms by (simp add: bindE_def)

text \<open>
  The loop over aligned arrays: the assignments and the field names, each list joined
  by a comma and a blank, after whatever the clauses held before.
\<close>

lemma dbUpdate_loop_array:
  assumes "getp updateData ''argumentsNbr'' = Inr (JArr nbrs)"
    and "flds \<noteq> []" and "idx + length flds \<le> length nbrs"
  shows "dbUpdate_loop updateData flds (setClause, returningClause, delim, idx) =
           Inr (setClause @ delim
                  @ join '', '' (map (\<lambda>(f, n). tostr f @ '' = '' @ tostr n)
                                     (zip flds (drop idx nbrs))),
                returningClause @ delim @ join '', '' (map tostr flds),
                '', '', idx + length flds)"
  using assms(2,3)
proof (induction flds arbitrary: setClause returningClause delim idx)
  case Nil
  then show ?case by simp
next
  case (Cons f fs)
  have lt: "idx < length nbrs" using Cons.prems by simp
  then have dr: "drop idx nbrs = nbrs ! idx # drop (Suc idx) nbrs"
    by (simp add: Cons_nth_drop_Suc)
  note step = dbUpdate_loop_step [OF assms(1) lt]
  show ?case
  proof (cases "fs = []")
    case True
    show ?thesis unfolding step using True dr by simp
  next
    case False
    have le: "Suc idx + length fs \<le> length nbrs" using Cons.prems by simp
    have ne: "map (\<lambda>(f, n). tostr f @ '' = '' @ tostr n) (zip fs (drop (Suc idx) nbrs)) \<noteq> []"
      using False le by (cases fs; cases "drop (Suc idx) nbrs") auto
    have ne2: "map tostr fs \<noteq> []" using False by simp
    show ?thesis
      unfolding step Cons.IH [OF False le]
      using ne ne2 by (simp add: dr join_Cons_nonempty)
  qed
qed

lemma dbUpdate_loop_same_nbrs:
  "getp u' ''argumentsNbr'' = getp u ''argumentsNbr'' \<Longrightarrow>
   dbUpdate_loop u' flds (s, r, d, i) = dbUpdate_loop u flds (s, r, d, i)"
proof (induction flds arbitrary: s r d i)
  case Nil
  then show ?case by simp
next
  case (Cons f fs)
  then show ?case by (simp add: bindE_def split: sum.splits)
qed

text \<open>Lines 258-273 on an \<open>updateData\<close> of three arrays, two of them aligned.\<close>

lemma dbUpdate_clauses_arrays:
  assumes "getp whereCriteria ''pk'' = Inr pk"
    and "getp whereCriteria ''value'' = Inr v"
    and "map_of kvs ''argumentsName'' = Some (JArr flds)"
    and "map_of kvs ''argumentsNbr'' = Some (JArr nbrs)"
    and "map_of kvs ''argumentsValues'' = Some (JArr vals)"
    and "length nbrs = length flds"
  shows "dbUpdate_clauses whereCriteria (JObj kvs) =
           Inr (join '', '' (map (\<lambda>(f, n). tostr f @ '' = '' @ tostr n) (zip flds nbrs)),
                tostr pk @ '' = $'' @ digits (length flds + 1),
                tostr pk @ '', '' @ join '', '' (map tostr flds),
                JObj (put ''argumentsValues'' (JArr (vals @ [v])) kvs))"
proof (cases "flds = []")
  case True
  then show ?thesis using assms
    by (simp add: dbUpdate_clauses_def bindE_def digits_one_digit)
next
  case False
  have nb: "getp (JObj kvs) ''argumentsNbr'' = Inr (JArr nbrs)" using assms(4) by simp
  have loop: "dbUpdate_loop (JObj kvs) flds ([], tostr pk @ '', '', [], 0) =
      Inr (join '', '' (map (\<lambda>(f, n). tostr f @ '' = '' @ tostr n) (zip flds nbrs)),
           tostr pk @ '', '' @ join '', '' (map tostr flds), '', '', length flds)"
    using dbUpdate_loop_array [OF nb False, of 0 "[]" "tostr pk @ '', ''" "[]"] assms(6)
    by simp
  have num: "nat (int (length flds) + 1) = length flds + 1" by simp
  show ?thesis using assms
    by (simp add: dbUpdate_clauses_def bindE_def loop num)
qed

subsection \<open>Select by criteria\<close>

text \<open>
  Claim C1. When the statement of a \<open>dbSelect\<close> call is answered with rows, the
  envelope follows the number of rows: none gives the failure \<open>not found\<close>; exactly one
  gives success with that row itself as \<open>sqlReturn\<close>, which is not the one-element
  array; two or more give success with the array of exactly those rows, in the store's
  order.
\<close>

theorem dbSelect_cardinality:
  fixes query :: "'db store"
  assumes "dbSelect_call selectData table = Inr (sql, criteriaValues)"
    and "query sql criteriaValues db = (Result rows, db')"
  shows "(rows = [] \<longrightarrow>
            fst (dbSelect query selectData table db) =
              Inr (JObj [(''success'', JBool False), (''sqlReturn'', JStr []),
                         (''error'', JObj [(''message'', JStr ''not found'')])]))
       \<and> (\<forall>r. rows = [r] \<longrightarrow>
            fst (dbSelect query selectData table db) =
              Inr (JObj [(''success'', JBool True), (''sqlReturn'', r),
                         (''error'', JObj [(''message'', JStr [])])])
            \<and> r \<noteq> JArr rows)
       \<and> (2 \<le> length rows \<longrightarrow>
            fst (dbSelect query selectData table db) =
              Inr (JObj [(''success'', JBool True), (''sqlReturn'', JArr rows),
                         (''error'', JObj [(''message'', JStr [])])]))"
  using assms by (auto simp add: dbSelect_def jsval_not_own_singleton)

text \<open>
  The three cases on a scripted store: a select over \<open>invoices\<close> answered with no row,
  with one row and with two.
\<close>

theorem dbSelect_cardinality_witness:
  fixes selectData table criteriaValues r1 r2 :: jsval and sql :: string
  defines "selectData \<equiv>
      JObj [(''criteria'', JStr ''id > $1''), (''criteriaValues'', JArr [JNum 0]),
            (''selectFields'', JStr ''id, comp_code'')]"
    and "table \<equiv> JStr ''invoices''"
    and "sql \<equiv> ''\<newline>                SELECT id, comp_code \<newline>                FROM invoices \<newline>                WHERE id > $1 \<newline>            ''"
    and "criteriaValues \<equiv> JArr [JNum 0]"
    and "r1 \<equiv> JObj [(''id'', JNum 1), (''comp_code'', JStr ''apple'')]"
    and "r2 \<equiv> JObj [(''id'', JNum 2), (''comp_code'', JStr ''ibm'')]"
  shows "dbSelect_call selectData table = Inr (sql, criteriaValues)
       \<and> scripted sql criteriaValues [Result []] = (Result [], [])
       \<and> fst (dbSelect scripted selectData table [Result []]) =
           Inr (JObj [(''success'', JBool False), (''sqlReturn'', JStr []),
                      (''error'', JObj [(''message'', JStr ''not found'')])])
       \<and> scripted sql criteriaValues [Result [r1]] = (Result [r1], [])
       \<and> fst (dbSelect scripted selectData table [Result [r1]]) =
           Inr (JObj [(''success'', JBool True), (''sqlReturn'', r1),
                      (''error'', JObj [(''message'', JStr [])])])
       \<and> r1 \<noteq> JArr [r1]
       \<and> scripted sql criteriaValues [Result [r1, r2]] = (Result [r1, r2], [])
       \<and> fst (dbSelect scripted selectData table [Result [r1, r2]]) =
           Inr (JObj [(''success'', JBool True), (''sqlReturn'', JArr [r1, r2]),
                      (''error'', JObj [(''message'', JStr [])])])"
proof -
  have call: "dbSelect_call selectData table = Inr (sql, criteriaValues)"
    by (simp add: dbSelect_call_def bindE_def selectData_def table_def sql_def criteriaValues_def)
  have q: "scripted sql criteriaValues [Result rows] = (Result rows, [])" for rows
    by (simp add: scripted_def)
  show ?thesis
    using call q
      dbSelect_cardinality [where query = scripted and db = "[Result []]", OF call q]
      dbSelect_cardinality [where query = scripted and db = "[Result [r1]]", OF call q]
      dbSelect_cardinality [where query = scripted and db = "[Result [r1, r2]]", OF call q]
    by simp
qed

subsection \<open>Update\<close>

text \<open>
  Claim C2. For an update of \<open>n\<close> columns (\<open>n\<close> field names and \<open>n\<close> placeholders,
  \<open>n\<close> being any number), the WHERE clause compares the primary key with the
  placeholder \<open>$(n+1)\<close>; the bound values are the supplied update values in order,
  followed by the primary-key value as the last element; the RETURNING clause names the
  primary key and then every updated column. The statement built from these clauses,
  with these bound values, is the one the store executes.
\<close>

theorem dbUpdate_where_placeholder_last:
  fixes query :: "'db store"
  defines "setClause flds nbrs \<equiv>
      join '', '' (map (\<lambda>(f, n). tostr f @ '' = '' @ tostr n) (zip flds nbrs))"
    and "whereClause pk flds \<equiv> tostr pk @ '' = $'' @ digits (length flds + 1)"
    and "returningClause pk flds \<equiv> tostr pk @ '', '' @ join '', '' (map tostr flds)"
    and "statement t s w r \<equiv>
      ''\<newline>                UPDATE '' @ tostr t @ '' \<newline>                SET '' @ s
        @ '' \<newline>                WHERE '' @ w @ ''\<newline>                RETURNING '' @ r
        @ '' \<newline>            ''"
  assumes "getp whereCriteria ''pk'' = Inr pk"
    and "getp whereCriteria ''value'' = Inr v"
    and "map_of kvs ''argumentsName'' = Some (JArr flds)"
    and "map_of kvs ''argumentsNbr'' = Some (JArr nbrs)"
    and "map_of kvs ''argumentsValues'' = Some (JArr vals)"
    and "length nbrs = length flds"
  shows "dbUpdate_clauses whereCriteria (JObj kvs) =
           Inr (setClause flds nbrs, whereClause pk flds, returningClause pk flds,
                JObj (put ''argumentsValues'' (JArr (vals @ [v])) kvs))
         \<and> dbUpdate_call table (setClause flds nbrs) (whereClause pk flds)
               (returningClause pk flds)
               (JObj (put ''argumentsValues'' (JArr (vals @ [v])) kvs)) =
             Inr (statement table (setClause flds nbrs) (whereClause pk flds)
                    (returningClause pk flds),
                  JArr (vals @ [v]))
         \<and> snd (snd (dbUpdate query whereCriteria (JObj kvs) table db)) =
             snd (query
                    (statement table (setClause flds nbrs) (whereClause pk flds)
                       (returningClause pk flds))
                    (JArr (vals @ [v])) db)"
  unfolding setClause_def whereClause_def returningClause_def statement_def
  by (simp add: dbUpdate_def dbUpdate_clauses_arrays [OF assms(5-10)] dbUpdate_call_def
        bindE_def map_of_put split: prod.splits response.splits)

text \<open>
  An update of the two columns \<open>amt\<close> and \<open>paid\<close> of invoice 1: the clauses, the
  statement text and the bound values \<open>[500, true, 1]\<close>.
\<close>

theorem dbUpdate_where_placeholder_last_witness:
  fixes whereCriteria :: jsval and kvs :: "(string \<times> jsval) list"
  defines "whereCriteria \<equiv> JObj [(''pk'', JStr ''id''), (''value'', JNum 1)]"
    and "kvs \<equiv> [(''argumentsNbr'', JArr [JStr ''$1'', JStr ''$2'']),
                 (''argumentsValues'', JArr [JNum 500, JBool True]),
                 (''argumentsName'', JArr [JStr ''amt'', JStr ''paid''])]"
  shows "getp whereCriteria ''pk'' = Inr (JStr ''id'')
       \<and> getp whereCriteria ''value'' = Inr (JNum 1)
       \<and> map_of kvs ''argumentsName'' = Some (JArr [JStr ''amt'', JStr ''paid''])
       \<and> map_of kvs ''argumentsNbr'' = Some (JArr [JStr ''$1'', JStr ''$2''])
       \<and> map_of kvs ''argumentsValues'' = Some (JArr [JNum 500, JBool True])
       \<and> length [JStr ''$1'', JStr ''$2''] = length [JStr ''amt'', JStr ''paid'']
       \<and> dbUpdate_clauses whereCriteria (JObj kvs) =
           Inr (''amt = $1, paid = $2'', ''id = $3'', ''id, amt, paid'',
                JObj [(''argumentsNbr'', JArr [JStr ''$1'', JStr ''$2'']),
                      (''argumentsValues'', JArr [JNum 500, JBool True, JNum 1]),
                      (''argumentsName'', JArr [JStr ''amt'', JStr ''paid''])])
       \<and> dbUpdate_call (JStr ''invoices'') ''amt = $1, paid = $2'' ''id = $3'' ''id, amt, paid''
             (JObj [(''argumentsNbr'', JArr [JStr ''$1'', JStr ''$2'']),
                    (''argumentsValues'', JArr [JNum 500, JBool True, JNum 1]),
                    (''argumentsName'', JArr [JStr ''amt'', JStr ''paid''])]) =
           Inr (''\<newline>                UPDATE invoices \<newline>                SET amt = $1, paid = $2 \<newline>                WHERE id = $3\<newline>                RETURNING id, amt, paid \<newline>            '',
                JArr [JNum 500, JBool True, JNum 1])
       \<and> snd (snd (dbUpdate scripted whereCriteria (JObj kvs) (JStr ''invoices'')
                      [Result [], Result []])) = [Result []]"
proof -
  have h: "getp whereCriteria ''pk'' = Inr (JStr ''id'')"
    "getp whereCriteria ''value'' = Inr (JNum 1)"
    "map_of kvs ''argumentsName'' = Some (JArr [JStr ''amt'', JStr ''paid''])"
    "map_of kvs ''argumentsNbr'' = Some (JArr [JStr ''$1'', JStr ''$2''])"
    "map_of kvs ''argumentsValues'' = Some (JArr [JNum 500, JBool True])"
    "length [JStr ''$1'', JStr ''$2''] = length [JStr ''amt'', JStr ''paid'']"
    by (simp_all add: whereCriteria_def kvs_def)
  show ?thesis
    using h dbUpdate_where_placeholder_last
      [where query = scripted and db = "[Result [], Result []]" and table = "JStr ''invoices''",
        OF h]
    by (simp add: kvs_def scripted_def digits_one_digit)
qed

text \<open>
  Claim C9. \<open>dbUpdate\<close> changes its caller's input: after the call,
  \<open>updateData.argumentsValues\<close> holds the primary-key value as one more element at its
  end, and a second call with the same \<open>updateData\<close> builds the same statement but
  binds a longer array, with the primary-key value twice.
\<close>

theorem dbUpdate_appends_to_callers_array:
  fixes query :: "'db store"
  assumes "getp whereCriteria ''value'' = Inr v"
    and "map_of kvs ''argumentsValues'' = Some (JArr vals)"
    and "dbUpdate_clauses whereCriteria (JObj kvs) = Inr (setClause, whereClause, returningClause, u1)"
    and "dbUpdate_call table setClause whereClause returningClause u1 = Inr (sql, vals1)"
  shows "fst (snd (dbUpdate query whereCriteria (JObj kvs) table db)) = u1
         \<and> getp u1 ''argumentsValues'' = Inr (JArr (vals @ [v]))
         \<and> vals1 = JArr (vals @ [v])
         \<and> length (vals @ [v]) = length vals + 1
         \<and> (\<exists>u2. dbUpdate_clauses whereCriteria u1 = Inr (setClause, whereClause, returningClause, u2)
               \<and> fst (snd (dbUpdate query whereCriteria u1 table db')) = u2
               \<and> dbUpdate_call table setClause whereClause returningClause u2 =
                   Inr (sql, JArr (vals @ [v, v]))
               \<and> snd (snd (dbUpdate query whereCriteria u1 table db')) =
                   snd (query sql (JArr (vals @ [v, v])) db'))"
proof -
  have A: "getp (JObj kvs) ''argumentsValues'' = Inr (JArr vals)" using assms(2) by simp
  let ?u1 = "JObj (put ''argumentsValues'' (JArr (vals @ [v])) kvs)"
  let ?u2 = "JObj (put ''argumentsValues'' (JArr (vals @ [v, v])) kvs)"
  have u1: "u1 = ?u1"
    using assms(3) A assms(1)
    by (auto simp add: dbUpdate_clauses_def bindE_def split: sum.splits prod.splits)
  have same: "getp ?u1 k = getp (JObj kvs) k" if "k \<noteq> ''argumentsValues''" for k
    using that by (simp add: map_of_put)
  have loop: "dbUpdate_loop ?u1 flds (s, r, d, i) = dbUpdate_loop (JObj kvs) flds (s, r, d, i)"
    for flds s r d i
    by (rule dbUpdate_loop_same_nbrs) (simp add: map_of_put)
  have put2: "put ''argumentsValues'' x (put ''argumentsValues'' y kvs) = put ''argumentsValues'' x kvs"
    for x y using assms(2) by (induction kvs) auto
  have c2: "dbUpdate_clauses whereCriteria ?u1 = Inr (setClause, whereClause, returningClause, ?u2)"
    using assms(3) A assms(1)
    by (auto simp add: dbUpdate_clauses_def bindE_def map_of_put loop put2
        split: sum.splits prod.splits)
  have sql: "dbUpdate_call table setClause whereClause returningClause ?u2 =
               Inr (sql, JArr (vals @ [v, v]))"
    and v1: "vals1 = JArr (vals @ [v])"
    using assms(4) unfolding u1 by (auto simp add: dbUpdate_call_def bindE_def map_of_put)
  show ?thesis
    using assms(3,4) c2 sql v1 unfolding u1
    by (auto simp add: dbUpdate_def map_of_put split: prod.splits response.splits)
qed

text \<open>
  Two calls with the same \<open>updateData\<close>: \<open>[500]\<close> becomes \<open>[500, 1]\<close> and then
  \<open>[500, 1, 1]\<close>.
\<close>

theorem dbUpdate_appends_to_callers_array_witness:
  fixes whereCriteria :: jsval and kvs :: "(string \<times> jsval) list" and sql :: string
  defines "whereCriteria \<equiv> JObj [(''pk'', JStr ''id''), (''value'', JNum 1)]"
    and "kvs \<equiv> [(''argumentsNbr'', JArr [JStr ''$1'']),
                 (''argumentsValues'', JArr [JNum 500]),
                 (''argumentsName'', JArr [JStr ''amt''])]"
    and "sql \<equiv> ''\<newline>                UPDATE invoices \<newline>                SET amt = $1 \<newline>                WHERE id = $2\<newline>                RETURNING id, amt \<newline>            ''"
  shows "getp whereCriteria ''value'' = Inr (JNum 1)
       \<and> map_of kvs ''argumentsValues'' = Some (JArr [JNum 500])
       \<and> dbUpdate_clauses whereCriteria (JObj kvs) =
           Inr (''amt = $1'', ''id = $2'', ''id, amt'',
                JObj [(''argumentsNbr'', JArr [JStr ''$1'']),
                      (''argumentsValues'', JArr [JNum 500, JNum 1]),
                      (''argumentsName'', JArr [JStr ''amt''])])
       \<and> dbUpdate_call (JStr ''invoices'') ''amt = $1'' ''id = $2'' ''id, amt''
             (JObj [(''argumentsNbr'', JArr [JStr ''$1'']),
                    (''argumentsValues'', JArr [JNum 500, JNum 1]),
                    (''argumentsName'', JArr [JStr ''amt''])]) =
           Inr (sql, JArr [JNum 500, JNum 1])
       \<and> fst (snd (dbUpdate scripted whereCriteria (JObj kvs) (JStr ''invoices'') [Result []])) =
           JObj [(''argumentsNbr'', JArr [JStr ''$1'']),
                 (''argumentsValues'', JArr [JNum 500, JNum 1]),
                 (''argumentsName'', JArr [JStr ''amt''])]
       \<and> fst (snd (dbUpdate scripted whereCriteria
                      (JObj [(''argumentsNbr'', JArr [JStr ''$1'']),
                             (''argumentsValues'', JArr [JNum 500, JNum 1]),
                             (''argumentsName'', JArr [JStr ''amt''])])
                      (JStr ''invoices'') [Result []])) =
           JObj [(''argumentsNbr'', JArr [JStr ''$1'']),
                 (''argumentsValues'', JArr [JNum 500, JNum 1, JNum 1]),
                 (''argumentsName'', JArr [JStr ''amt''])]"
proof -
  have v: "getp whereCriteria ''value'' = Inr (JNum 1)" by (simp add: whereCriteria_def)
  have a: "map_of kvs ''argumentsValues'' = Some (JArr [JNum 500])" by (simp add: kvs_def)
  have c: "dbUpdate_clauses whereCriteria (JObj kvs) =
           Inr (''amt = $1'', ''id = $2'', ''id, amt'',
                JObj [(''argumentsNbr'', JArr [JStr ''$1'']),
                      (''argumentsValues'', JArr [JNum 500, JNum 1]),
                      (''argumentsName'', JArr [JStr ''amt''])])"
    by (simp add: dbUpdate_clauses_def bindE_def whereCriteria_def kvs_def digits_one_digit)
  have d: "dbUpdate_call (JStr ''invoices'') ''amt = $1'' ''id = $2'' ''id, amt''
             (JObj [(''argumentsNbr'', JArr [JStr ''$1'']),
                    (''argumentsValues'', JArr [JNum 500, JNum 1]),
                    (''argumentsName'', JArr [JStr ''amt''])]) =
           Inr (sql, JArr [JNum 500, JNum 1])"
    by (simp add: dbUpdate_call_def bindE_def sql_def)
  have first:
    "fst (snd (dbUpdate scripted whereCriteria (JObj kvs) (JStr ''invoices'') [Result []])) =
       JObj [(''argumentsNbr'', JArr [JStr ''$1'']),
             (''argumentsValues'', JArr [JNum 500, JNum 1]),
             (''argumentsName'', JArr [JStr ''amt''])]"
    using dbUpdate_appends_to_callers_array
        [where query = scripted and db = "[Result []]" and db' = "[Result []]", OF v a c d]
    by (rule conjunct1)
  have second:
    "fst (snd (dbUpdate scripted whereCriteria
                 (JObj [(''argumentsNbr'', JArr [JStr ''$1'']),
                        (''argumentsValues'', JArr [JNum 500, JNum 1]),
                        (''argumentsName'', JArr [JStr ''amt''])])
                 (JStr ''invoices'') [Result []])) =
       JObj [(''argumentsNbr'', JArr [JStr ''$1'']),
             (''argumentsValues'', JArr [JNum 500, JNum 1, JNum 1]),
             (''argumentsName'', JArr [JStr ''amt''])]"
    by (simp add: dbUpdate_def dbUpdate_clauses_def dbUpdate_call_def bindE_def
        whereCriteria_def scripted_def digits_one_digit)
  show ?thesis
    using v a c d first second by (intro conjI)
qed

subsection \<open>No matching row\<close>

text \<open>
  Claim C3. When the store answers the statement with no row, each of \<open>dbSelect\<close>,
  \<open>dbUpdate\<close> and \<open>dbDelete\<close> resolves with a failure envelope whose message is
  \<open>not found\<close>, never with a success envelope.
\<close>

theorem zero_rows_report_not_found:
  fixes query :: "'db store"
  shows "(\<forall>sql vals db'.
            dbSelect_call selectData table = Inr (sql, vals) \<and> query sql vals db = (Result [], db') \<longrightarrow>
            fst (dbSelect query selectData table db) =
              Inr (JObj [(''success'', JBool False), (''sqlReturn'', JStr []),
                         (''error'', JObj [(''message'', JStr ''not found'')])]))
       \<and> (\<forall>setClause whereClause returningClause updateData' sql vals db'.
            dbUpdate_clauses whereCriteria updateData =
              Inr (setClause, whereClause, returningClause, updateData')
            \<and> dbUpdate_call table setClause whereClause returningClause updateData' = Inr (sql, vals)
            \<and> query sql vals db = (Result [], db') \<longrightarrow>
            fst (dbUpdate query whereCriteria updateData table db) =
              Inr (JObj [(''success'', JBool False), (''sqlReturn'', JObj []),
                         (''error'', JObj [(''message'', JStr ''not found'')])]))
       \<and> (\<forall>sql vals db'.
            dbDelete_call deleteData table = Inr (sql, vals) \<and> query sql vals db = (Result [], db') \<longrightarrow>
            fst (dbDelete query deleteData table db) =
              Inr (JObj [(''success'', JBool False), (''message'', JObj []),
                         (''error'', JObj [(''message'', JStr ''not found'')])]))"
  by (simp add: dbSelect_def dbUpdate_def dbDelete_def)

text \<open>
  The three operations on invoice 999, which the store does not hold.
\<close>

theorem zero_rows_report_not_found_witness:
  fixes criteria whereCriteria updateData :: jsval
  defines "criteria \<equiv>
      JObj [(''criteria'', JStr ''id = $1''), (''criteriaValues'', JArr [JNum 999]),
            (''selectFields'', JStr ''id, comp_code''), (''argumentsName'', JStr ''id'')]"
    and "whereCriteria \<equiv> JObj [(''pk'', JStr ''id''), (''value'', JNum 999)]"
    and "updateData \<equiv>
      JObj [(''argumentsNbr'', JArr [JStr ''$1'']), (''argumentsValues'', JArr [JNum 500]),
            (''argumentsName'', JArr [JStr ''amt''])]"
  shows "dbSelect_call criteria (JStr ''invoices'') =
           Inr (''\<newline>                SELECT id, comp_code \<newline>                FROM invoices \<newline>                WHERE id = $1 \<newline>            '',
                JArr [JNum 999])
       \<and> fst (dbSelect scripted criteria (JStr ''invoices'') [Result []]) =
           Inr (JObj [(''success'', JBool False), (''sqlReturn'', JStr []),
                      (''error'', JObj [(''message'', JStr ''not found'')])])
       \<and> dbUpdate_clauses whereCriteria updateData =
           Inr (''amt = $1'', ''id = $2'', ''id, amt'',
                JObj [(''argumentsNbr'', JArr [JStr ''$1'']),
                      (''argumentsValues'', JArr [JNum 500, JNum 999]),
                      (''argumentsName'', JArr [JStr ''amt''])])
       \<and> dbUpdate_call (JStr ''invoices'') ''amt = $1'' ''id = $2'' ''id, amt''
             (JObj [(''argumentsNbr'', JArr [JStr ''$1'']),
                    (''argumentsValues'', JArr [JNum 500, JNum 999]),
                    (''argumentsName'', JArr [JStr ''amt''])]) =
           Inr (''\<newline>                UPDATE invoices \<newline>                SET amt = $1 \<newline>                WHERE id = $2\<newline>                RETURNING id, amt \<newline>            '',
                JArr [JNum 500, JNum 999])
       \<and> fst (dbUpdate scripted whereCriteria updateData (JStr ''invoices'') [Result []]) =
           Inr (JObj [(''success'', JBool False), (''sqlReturn'', JObj []),
                      (''error'', JObj [(''message'', JStr ''not found'')])])
       \<and> dbDelete_call criteria (JStr ''invoices'') =
           Inr (''\<newline>                DELETE FROM invoices  \<newline>                WHERE id = $1 \<newline>                RETURNING id\<newline>            '',
                JArr [JNum 999])
       \<and> fst (dbDelete scripted criteria (JStr ''invoices'') [Result []]) =
           Inr (JObj [(''success'', JBool False), (''message'', JObj []),
                      (''error'', JObj [(''message'', JStr ''not found'')])])"
proof -
  have s: "dbSelect_call criteria (JStr ''invoices'') =
           Inr (''\<newline>                SELECT id, comp_code \<newline>                FROM invoices \<newline>                WHERE id = $1 \<newline>            '',
                JArr [JNum 999])"
    by (simp add: dbSelect_call_def bindE_def criteria_def)
  have d: "dbDelete_call criteria (JStr ''invoices'') =
           Inr (''\<newline>                DELETE FROM invoices  \<newline>                WHERE id = $1 \<newline>                RETURNING id\<newline>            '',
                JArr [JNum 999])"
    by (simp add: dbDelete_call_def bindE_def criteria_def)
  have u: "dbUpdate_clauses whereCriteria updateData =
           Inr (''amt = $1'', ''id = $2'', ''id, amt'',
                JObj [(''argumentsNbr'', JArr [JStr ''$1'']),
                      (''argumentsValues'', JArr [JNum 500, JNum 999]),
                      (''argumentsName'', JArr [JStr ''amt''])])"
    by (simp add: dbUpdate_clauses_def bindE_def whereCriteria_def updateData_def
        digits_one_digit)
  have c: "dbUpdate_call (JStr ''invoices'') ''amt = $1'' ''id = $2'' ''id, amt''
             (JObj [(''argumentsNbr'', JArr [JStr ''$1'']),
                    (''argumentsValues'', JArr [JNum 500, JNum 999]),
                    (''argumentsName'', JArr [JStr ''amt''])]) =
           Inr (''\<newline>                UPDATE invoices \<newline>                SET amt = $1 \<newline>                WHERE id = $2\<newline>                RETURNING id, amt \<newline>            '',
                JArr [JNum 500, JNum 999])"
    by (simp add: dbUpdate_call_def bindE_def)
  have q: "scripted sql vals [Result []] = (Result [], [])" for sql vals
    by (simp add: scripted_def)
  show ?thesis
    using s d u c q
      zero_rows_report_not_found
        [where query = scripted and db = "[Result []]" and selectData = criteria
           and deleteData = criteria and whereCriteria = whereCriteria
           and updateData = updateData and table = "JStr ''invoices''"]
    by simp
qed

subsection \<open>What is thrown\<close>

text \<open>
  Whatever the input and whatever the store answers, \<open>dbSelectAll\<close>, \<open>dbSelect\<close>,
  \<open>dbInsert\<close> and \<open>dbDelete\<close> resolve with an envelope: each reads its input and calls
  the store inside its \<open>try\<close>, and the \<open>catch\<close> resolves.
\<close>

lemma siblings_always_resolve:
  fixes query :: "'db store"
  shows "(\<exists>env. fst (dbSelectAll query selectFields table db) = Inr env)
       \<and> (\<exists>env. fst (dbSelect query selectData table db) = Inr env)
       \<and> (\<exists>env. fst (dbInsert query insertData table returnFields db) = Inr env)
       \<and> (\<exists>env. fst (dbDelete query deleteData table db) = Inr env)"
proof -
  have 1: "\<exists>env. fst (dbSelectAll query selectFields table db) = Inr env"
    by (auto simp add: dbSelectAll_def split: prod.splits response.splits)
  have 2: "\<exists>env. fst (dbSelect query selectData table db) = Inr env"
    by (auto simp add: dbSelect_def split: sum.splits prod.splits response.splits)
  have 3: "\<exists>env. fst (dbInsert query insertData table returnFields db) = Inr env"
    by (auto simp add: dbInsert_def split: sum.splits prod.splits response.splits)
  have 4: "\<exists>env. fst (dbDelete query deleteData table db) = Inr env"
    by (auto simp add: dbDelete_def split: sum.splits prod.splits response.splits)
  show ?thesis using 1 2 3 4 by (intro conjI)
qed

text \<open>
  Claim C4 says that none of the five operations throws, whatever its input and whatever
  the store answers: every outcome is returned as an envelope. \<open>dbUpdate\<close> does throw.
  Called without its \<open>updateData\<close>, or with one that lacks the array
  \<open>argumentsName\<close>, it throws a TypeError at line 262, before the promise and its
  \<open>try\<close> exist, and the store is never asked. \<open>dbSelect\<close>, \<open>dbInsert\<close> and
  \<open>dbDelete\<close>, called without their data object, meet the same TypeError inside their
  \<open>try\<close> and resolve with a failure envelope that carries it.
\<close>

theorem dbUpdate_throws_where_siblings_resolve:
  "dbUpdate scripted (JObj [(''pk'', JStr ''id''), (''value'', JNum 1)]) JUndefined
       (JStr ''invoices'') [Result []] =
     (Inl (TypeError ''cannot read property argumentsName of undefined''), JUndefined,
      [Result []])
   \<and> dbUpdate scripted (JObj [(''pk'', JStr ''id''), (''value'', JNum 1)]) (JObj [])
       (JStr ''invoices'') [Result []] =
     (Inl (TypeError ''value is not iterable''), JObj [], [Result []])
   \<and> dbSelect scripted JUndefined (JStr ''invoices'') [Result []] =
     (Inr (JObj [(''success'', JBool False), (''sqlReturn'', JStr []),
                 (''error'', JObj [(''message'',
                    TypeError ''cannot read property selectFields of undefined'')])]),
      [Result []])
   \<and> dbInsert scripted JUndefined (JStr ''invoices'') JUndefined [Result []] =
     (Inr (JObj [(''success'', JBool False), (''insertReturn'', JStr []),
                 (''error'', JObj [(''message'',
                    TypeError ''cannot read property argumentsName of undefined'')])]),
      [Result []])
   \<and> dbDelete scripted JUndefined (JStr ''invoices'') [Result []] =
     (Inr (JObj [(''success'', JBool False), (''message'', JObj []),
                 (''error'', JObj [(''message'',
                    TypeError ''cannot read property criteria of undefined'')])]),
      [Result []])"
  by (simp add: dbUpdate_def dbUpdate_clauses_def dbSelect_def dbSelect_call_def
      dbInsert_def dbInsert_call_def dbDelete_def dbDelete_call_def bindE_def)

subsection \<open>Select all\<close>

text \<open>
  Claim C5. \<open>dbSelectAll\<close> succeeds with the array of the rows the store returns, the
  empty array included; it fails only when the store rejects the statement, and then
  the envelope carries the store's error.
\<close>

theorem dbSelectAll_rows_or_store_error:
  fixes query :: "'db store"
  shows "(\<forall>rows db'. query (dbSelectAll_sql selectFields table) JUndefined db = (Result rows, db') \<longrightarrow>
      dbSelectAll query selectFields table db =
        (Inr (JObj [(''success'', JBool True), (''sqlReturn'', JArr rows),
                    (''error'', JObj [(''message'', JStr [])])]), db'))
   \<and> (\<forall>err db'. query (dbSelectAll_sql selectFields table) JUndefined db = (Rejected err, db') \<longrightarrow>
      dbSelectAll query selectFields table db =
        (Inr (JObj [(''success'', JBool False), (''sqlReturn'', JStr []),
                    (''error'', JObj [(''message'', err)])]), db'))"
  by (simp add: dbSelectAll_def)

text \<open>
  The empty table of invoices, and a store that rejects the statement.
\<close>

theorem dbSelectAll_rows_or_store_error_witness:
  fixes err :: jsval
  defines "err \<equiv> JErr ''error'' ''relation does not exist'' []"
  shows "dbSelectAll_sql (JStr ''id, comp_code'') (JStr ''invoices'') =
           ''\<newline>                SELECT id, comp_code \<newline>                FROM invoices  \<newline>            ''
       \<and> scripted (dbSelectAll_sql (JStr ''id, comp_code'') (JStr ''invoices'')) JUndefined
             [Result []] = (Result [], [])
       \<and> dbSelectAll scripted (JStr ''id, comp_code'') (JStr ''invoices'') [Result []] =
           (Inr (JObj [(''success'', JBool True), (''sqlReturn'', JArr []),
                       (''error'', JObj [(''message'', JStr [])])]), [])
       \<and> scripted (dbSelectAll_sql (JStr ''id, comp_code'') (JStr ''invoices'')) JUndefined
             [Rejected err] = (Rejected err, [])
       \<and> dbSelectAll scripted (JStr ''id, comp_code'') (JStr ''invoices'') [Rejected err] =
           (Inr (JObj [(''success'', JBool False), (''sqlReturn'', JStr []),
                       (''error'', JObj [(''message'', err)])]), [])"
  using dbSelectAll_rows_or_store_error
      [where query = scripted and db = "[Result []]" and selectFields = "JStr ''id, comp_code''"
         and table = "JStr ''invoices''"]
    dbSelectAll_rows_or_store_error
      [where query = scripted and db = "[Rejected err]" and selectFields = "JStr ''id, comp_code''"
         and table = "JStr ''invoices''"]
  by (simp add: scripted_def dbSelectAll_sql_def)

subsection \<open>The error field of the envelope\<close>

text \<open>
  Claim C6, as stated, fails: a success envelope has an \<open>error\<close> field too, and the
  \<open>error\<close> of a failure envelope has no \<open>kind\<close>.
\<close>

theorem success_envelope_has_error_field:
  "fst (dbSelectAll scripted (JStr ''id, comp_code'') (JStr ''invoices'') [Result []]) =
     Inr (JObj [(''success'', JBool True), (''sqlReturn'', JArr []),
                (''error'', JObj [(''message'', JStr [])])])
   \<and> getp (JObj [(''success'', JBool True), (''sqlReturn'', JArr []),
                 (''error'', JObj [(''message'', JStr [])])]) ''error'' \<noteq> Inr JUndefined
   \<and> fst (dbSelect scripted
            (JObj [(''criteria'', JStr ''id = $1''), (''criteriaValues'', JArr [JNum 999]),
                   (''selectFields'', JStr ''id, comp_code'')])
            (JStr ''invoices'') [Result []]) =
     Inr (JObj [(''success'', JBool False), (''sqlReturn'', JStr []),
                (''error'', JObj [(''message'', JStr ''not found'')])])
   \<and> getp (JObj [(''message'', JStr ''not found'')]) ''kind'' = Inr JUndefined"
  by (simp add: dbSelectAll_def dbSelect_def dbSelect_call_def bindE_def scripted_def)

text \<open>
  Claim C6, amended. Every envelope the five operations resolve with has a boolean
  \<open>success\<close> and an \<open>error\<close> field, whether \<open>success\<close> is true or false; \<open>error\<close> is
  an object with the single key \<open>message\<close> and no \<open>kind\<close>; when \<open>success\<close> is true the
  message is the empty string.
\<close>

theorem envelope_error_always_present:
  fixes query :: "'db store"
  defines "shaped env \<equiv>
      \<exists>b m. getp env ''success'' = Inr (JBool b)
          \<and> getp env ''error'' = Inr (JObj [(''message'', m)])
          \<and> (b \<longrightarrow> m = JStr [])"
  shows "(\<forall>env. fst (dbSelectAll query selectFields table db) = Inr env \<longrightarrow> shaped env)
       \<and> (\<forall>env. fst (dbSelect query selectData table db) = Inr env \<longrightarrow> shaped env)
       \<and> (\<forall>env. fst (dbInsert query insertData table returnFields db) = Inr env \<longrightarrow> shaped env)
       \<and> (\<forall>env. fst (dbUpdate query whereCriteria updateData table db) = Inr env \<longrightarrow> shaped env)
       \<and> (\<forall>env. fst (dbDelete query deleteData table db) = Inr env \<longrightarrow> shaped env)"
proof -
  have 1: "\<forall>env. fst (dbSelectAll query selectFields table db) = Inr env \<longrightarrow> shaped env"
    by (auto simp add: shaped_def dbSelectAll_def split: prod.splits response.splits)
  have 2: "\<forall>env. fst (dbSelect query selectData table db) = Inr env \<longrightarrow> shaped env"
    by (auto simp add: shaped_def dbSelect_def split: sum.splits prod.splits response.splits)
  have 3: "\<forall>env. fst (dbInsert query insertData table returnFields db) = Inr env \<longrightarrow> shaped env"
    by (auto simp add: shaped_def dbInsert_def split: sum.splits prod.splits response.splits)
  have 4: "\<forall>env. fst (dbUpdate query whereCriteria updateData table db) = Inr env \<longrightarrow> shaped env"
    by (auto simp add: shaped_def dbUpdate_def
        split: sum.splits prod.splits response.splits if_splits)
  have 5: "\<forall>env. fst (dbDelete query deleteData table db) = Inr env \<longrightarrow> shaped env"
    by (auto simp add: shaped_def dbDelete_def split: sum.splits prod.splits response.splits)
  show ?thesis using 1 2 3 4 5 by (intro conjI)
qed

text \<open>
  The envelope of a delete that removed one row.
\<close>

theorem envelope_error_always_present_witness:
  fixes deleteData row env :: jsval
  defines "deleteData \<equiv>
      JObj [(''criteria'', JStr ''id = $1''), (''criteriaValues'', JArr [JNum 1]),
            (''argumentsName'', JStr ''id'')]"
    and "row \<equiv> JObj [(''id'', JNum 1)]"
    and "env \<equiv>
      JObj [(''success'', JBool True), (''message'', JObj [(''status'', JStr ''deleted'')]),
            (''deleted'', JArr [row]), (''error'', JObj [(''message'', JStr [])])]"
  shows "fst (dbDelete scripted deleteData (JStr ''invoices'') [Result [row]]) = Inr env
       \<and> getp env ''success'' = Inr (JBool True)
       \<and> getp env ''error'' = Inr (JObj [(''message'', JStr [])])"
  using envelope_error_always_present
      [where query = scripted and db = "[Result [row]]" and deleteData = deleteData
         and table = "JStr ''invoices''"]
  by (simp add: deleteData_def env_def dbDelete_def dbDelete_call_def bindE_def scripted_def)

subsection \<open>Delete\<close>

text \<open>
  Claim C7. When the store answers a delete with one or more rows, \<open>dbDelete\<close> resolves
  with a success envelope that holds the array of the deleted rows, in the order of the
  RETURNING clause's answer, and the fixed marker \<open>{status: deleted}\<close>.
\<close>

theorem dbDelete_returns_deleted_rows:
  fixes query :: "'db store"
  assumes "dbDelete_call deleteData table = Inr (sql, vals)"
    and "query sql vals db = (Result rows, db')"
    and "rows \<noteq> []"
  shows "dbDelete query deleteData table db =
           (Inr (JObj [(''success'', JBool True),
                       (''message'', JObj [(''status'', JStr ''deleted'')]),
                       (''deleted'', JArr rows),
                       (''error'', JObj [(''message'', JStr [])])]), db')"
  using assms by (simp add: dbDelete_def)

text \<open>
  Deleting invoice 1, which exists.
\<close>

theorem dbDelete_returns_deleted_rows_witness:
  fixes deleteData row :: jsval
  defines "deleteData \<equiv>
      JObj [(''criteria'', JStr ''id = $1''), (''criteriaValues'', JArr [JNum 1]),
            (''argumentsName'', JStr ''id, amt, paid, add_date, paid_date, comp_code'')]"
    and "row \<equiv>
      JObj [(''id'', JNum 1), (''amt'', JNum 100), (''paid'', JBool False),
            (''add_date'', JStr ''2018-01-01''), (''paid_date'', JNull),
            (''comp_code'', JStr ''apple'')]"
  shows "dbDelete_call deleteData (JStr ''invoices'') =
           Inr (''\<newline>                DELETE FROM invoices  \<newline>                WHERE id = $1 \<newline>                RETURNING id, amt, paid, add_date, paid_date, comp_code\<newline>            '',
                JArr [JNum 1])
       \<and> [row] \<noteq> []
       \<and> dbDelete scripted deleteData (JStr ''invoices'') [Result [row], Result []] =
           (Inr (JObj [(''success'', JBool True),
                       (''message'', JObj [(''status'', JStr ''deleted'')]),
                       (''deleted'', JArr [row]),
                       (''error'', JObj [(''message'', JStr [])])]), [Result []])"
proof -
  have d: "dbDelete_call deleteData (JStr ''invoices'') =
           Inr (''\<newline>                DELETE FROM invoices  \<newline>                WHERE id = $1 \<newline>                RETURNING id, amt, paid, add_date, paid_date, comp_code\<newline>            '',
                JArr [JNum 1])"
    by (simp add: dbDelete_call_def bindE_def deleteData_def)
  have q: "scripted sql vals [Result [row], Result []] = (Result [row], [Result []])" for sql vals
    by (simp add: scripted_def)
  have ne: "[row] \<noteq> []" by simp
  show ?thesis
    using d dbDelete_returns_deleted_rows [where query = scripted, OF d q ne] by simp
qed

subsection \<open>PUT /invoices/:id when the invoice is not found\<close>

text \<open>
  Claim C8. When \<open>dbUpdate\<close> reports \<open>not found\<close>, the handler of PUT /invoices/:id
  reaches the branch that names the undeclared \<open>errorSelect\<close>: the handler throws a
  ReferenceError, and no error of status 404 is passed to \<open>next\<close>.
\<close>

theorem put_invoice_not_found_throws:
  fixes query :: "'db store"
  assumes "getp (checkNumbers (JStr (params_id req))) ''numberIsValid'' = Inr valid"
    and "valid \<noteq> JBool False"
    and "getp (checkNumbers (JStr (params_id req))) ''validatedNumber'' = Inr idIn"
    and "getp (prepareUpdateData
                 (JArr [JStr ''comp_code'', JStr ''amt'', JStr ''paid'', JStr ''paid_date''])
                 (body req)) ''success'' = Inr prepared"
    and "prepared \<noteq> JBool False"
    and "getp (prepareUpdateData
                 (JArr [JStr ''comp_code'', JStr ''amt'', JStr ''paid'', JStr ''paid_date''])
                 (body req)) ''updateData'' = Inr updateData"
    and "dbUpdate query (JObj [(''pk'', JStr ''id''), (''value'', idIn)]) updateData
           (JStr ''invoices'') db = (Inr resultsUpdate, updateData', db')"
    and "getp resultsUpdate ''success'' = Inr success" and "\<not> truthy success"
    and "getp resultsUpdate ''error'' = Inr error"
    and "getp error ''message'' = Inr (JStr ''not found'')"
  shows "put_invoice checkNumbers prepareUpdateData query req db =
           (Inl (ReferenceError ''errorSelect is not defined''), db')
         \<and> fst (put_invoice checkNumbers prepareUpdateData query req db) \<noteq>
             Inr (Next (status_error
                    (JStr (''Invoice '' @ [CHR 0x27] @ params_id req @ [CHR 0x27]
                             @ '' was not found.'')) 404))"
  using assms by (simp add: put_invoice_def put_invoice_answer_def bindE_def Let_def)

text \<open>
  PUT /invoices/7 with \<open>{amt: 500}\<close> when the store holds no invoice 7.
\<close>

theorem put_invoice_not_found_throws_witness:
  fixes checkNumbers :: "jsval \<Rightarrow> jsval" and prepareUpdateData :: "jsval \<Rightarrow> jsval \<Rightarrow> jsval"
    and req :: request and updateData :: jsval
  defines "checkNumbers \<equiv> \<lambda>raw.
      JObj [(''numberIsValid'', JBool True), (''validatedNumber'', JNum 7),
            (''message'', JStr [])]"
    and "updateData \<equiv>
      JObj [(''argumentsNbr'', JArr [JStr ''$1'']), (''argumentsValues'', JArr [JNum 500]),
            (''argumentsName'', JArr [JStr ''amt''])]"
    and "prepareUpdateData \<equiv> \<lambda>optionalKeys body.
      JObj [(''success'', JBool True), (''updateData'', updateData)]"
    and "req \<equiv> \<lparr>params_id = ''7'', body = JObj [(''amt'', JNum 500)]\<rparr>"
  shows "dbUpdate scripted (JObj [(''pk'', JStr ''id''), (''value'', JNum 7)]) updateData
           (JStr ''invoices'') [Result []] =
           (Inr (JObj [(''success'', JBool False), (''sqlReturn'', JObj []),
                       (''error'', JObj [(''message'', JStr ''not found'')])]),
            JObj [(''argumentsNbr'', JArr [JStr ''$1'']),
                  (''argumentsValues'', JArr [JNum 500, JNum 7]),
                  (''argumentsName'', JArr [JStr ''amt''])],
            [])
       \<and> put_invoice checkNumbers prepareUpdateData scripted req [Result []] =
           (Inl (ReferenceError ''errorSelect is not defined''), [])"
proof -
  have u: "dbUpdate scripted (JObj [(''pk'', JStr ''id''), (''value'', JNum 7)]) updateData
           (JStr ''invoices'') [Result []] =
           (Inr (JObj [(''success'', JBool False), (''sqlReturn'', JObj []),
                       (''error'', JObj [(''message'', JStr ''not found'')])]),
            JObj [(''argumentsNbr'', JArr [JStr ''$1'']),
                  (''argumentsValues'', JArr [JNum 500, JNum 7]),
                  (''argumentsName'', JArr [JStr ''amt''])],
            [])"
    by (simp add: updateData_def dbUpdate_def dbUpdate_clauses_def dbUpdate_call_def bindE_def
        scripted_def digits_one_digit)
  show ?thesis
    using u put_invoice_not_found_throws
      [where checkNumbers = checkNumbers and prepareUpdateData = prepareUpdateData
         and query = scripted and req = req and db = "[Result []]"
         and valid = "JBool True" and idIn = "JNum 7" and prepared = "JBool True"
         and updateData = updateData and success = "JBool False"
         and error = "JObj [(''message'', JStr ''not found'')]", OF _ _ _ _ _ _ u]
    by (simp add: checkNumbers_def prepareUpdateData_def req_def)
qed

subsection \<open>GET /invoices/:id when the company lookup fails\<close>

text \<open>
  Claim C10. When the lookup of the invoice succeeds and the lookup of its company
  fails, for whatever reason, the handler of GET /invoices/:id still answers with
  \<open>res.json\<close> (status 200), and the invoice in the body is the record as the first
  lookup returned it: \<open>comp_code\<close> is kept and no \<open>company\<close> key is added.
\<close>

theorem get_invoice_swallows_company_failure:
  fixes query :: "'db store"
  assumes "getp (checkNumbers (JStr (params_id req))) ''numberIsValid'' = Inr valid"
    and "truthy valid"
    and "getp (checkNumbers (JStr (params_id req))) ''validatedNumber'' = Inr idIn"
    and "dbSelect query
           (JObj [(''criteria'', JStr ''id = $1''), (''criteriaValues'', JArr [idIn]),
                  (''selectFields'', JStr ''id, amt, paid, add_date, paid_date, comp_code'')])
           (JStr ''invoices'') db = (Inr resultsInvoice, db1)"
    and "getp resultsInvoice ''success'' = Inr invoiceFound" and "truthy invoiceFound"
    and "getp resultsInvoice ''sqlReturn'' = Inr invoice"
    and "getp invoice ''comp_code'' = Inr comp_code"
    and "dbSelect query
           (JObj [(''criteria'', JStr ''code = $1''), (''criteriaValues'', JArr [comp_code]),
                  (''selectFields'', JStr ''code, name, description'')])
           (JStr ''companies'') db1 = (Inr resultsCompany, db2)"
    and "getp resultsCompany ''success'' = Inr companyFound" and "\<not> truthy companyFound"
  shows "get_invoice checkNumbers query req db =
           (Inr (Json (JObj [(''invoice'', invoice)])), db2)"
  using assms
  by (simp add: get_invoice_def get_invoice_found_def bindE_def Let_def)

text \<open>
  Invoice 1 of company \<open>apple\<close>, when the table of companies holds no such code.
\<close>

theorem get_invoice_swallows_company_failure_witness:
  fixes checkNumbers :: "jsval \<Rightarrow> jsval" and req :: request and invoice :: jsval
  defines "checkNumbers \<equiv> \<lambda>raw.
      JObj [(''numberIsValid'', JBool True), (''validatedNumber'', JNum 1),
            (''message'', JStr [])]"
    and "req \<equiv> \<lparr>params_id = ''1'', body = JUndefined\<rparr>"
    and "invoice \<equiv>
      JObj [(''id'', JNum 1), (''amt'', JNum 100), (''paid'', JBool False),
            (''add_date'', JStr ''2018-01-01''), (''paid_date'', JNull),
            (''comp_code'', JStr ''apple'')]"
  shows "dbSelect scripted
           (JObj [(''criteria'', JStr ''id = $1''), (''criteriaValues'', JArr [JNum 1]),
                  (''selectFields'', JStr ''id, amt, paid, add_date, paid_date, comp_code'')])
           (JStr ''invoices'') [Result [invoice], Result []] =
           (Inr (JObj [(''success'', JBool True), (''sqlReturn'', invoice),
                       (''error'', JObj [(''message'', JStr [])])]), [Result []])
       \<and> dbSelect scripted
           (JObj [(''criteria'', JStr ''code = $1''), (''criteriaValues'', JArr [JStr ''apple'']),
                  (''selectFields'', JStr ''code, name, description'')])
           (JStr ''companies'') [Result []] =
           (Inr (JObj [(''success'', JBool False), (''sqlReturn'', JStr []),
                       (''error'', JObj [(''message'', JStr ''not found'')])]), [])
       \<and> get_invoice checkNumbers scripted req [Result [invoice], Result []] =
           (Inr (Json (JObj [(''invoice'', invoice)])), [])
       \<and> getp invoice ''comp_code'' = Inr (JStr ''apple'')
       \<and> getp invoice ''company'' = Inr JUndefined"
proof -
  have i: "dbSelect scripted
           (JObj [(''criteria'', JStr ''id = $1''), (''criteriaValues'', JArr [JNum 1]),
                  (''selectFields'', JStr ''id, amt, paid, add_date, paid_date, comp_code'')])
           (JStr ''invoices'') [Result [invoice], Result []] =
           (Inr (JObj [(''success'', JBool True), (''sqlReturn'', invoice),
                       (''error'', JObj [(''message'', JStr [])])]), [Result []])"
    by (simp add: dbSelect_def dbSelect_call_def bindE_def scripted_def)
  have c: "dbSelect scripted
           (JObj [(''criteria'', JStr ''code = $1''), (''criteriaValues'', JArr [JStr ''apple'']),
                  (''selectFields'', JStr ''code, name, description'')])
           (JStr ''companies'') [Result []] =
           (Inr (JObj [(''success'', JBool False), (''sqlReturn'', JStr []),
                       (''error'', JObj [(''message'', JStr ''not found'')])]), [])"
    by (simp add: dbSelect_def dbSelect_call_def bindE_def scripted_def)
  have k: "getp invoice ''comp_code'' = Inr (JStr ''apple'')"
    "getp invoice ''company'' = Inr JUndefined"
    by (simp_all add: invoice_def)
  have "get_invoice checkNumbers scripted req [Result [invoice], Result []] =
           (Inr (Json (JObj [(''invoice'', invoice)])), [])"
    using get_invoice_swallows_company_failure
          [where checkNumbers = checkNumbers and req = req and valid = "JBool True"
             and invoiceFound = "JBool True" and companyFound = "JBool False"
             and invoice = invoice, OF _ _ _ i _ _ _ k(1) c]
    by (simp add: checkNumbers_def req_def)
  then show ?thesis using i c k by simp
qed

end
